theory Spec2Isabelle
  imports Main "HOL-Library.Signed_Division"
begin

section \<open>Data model\<close>

text \<open>
  Addresses (\<^verbatim>\<open>void *\<close>) are natural numbers, the null pointer being 0. A time point of
  \<^verbatim>\<open>chrono::system_clock\<close> is its tick count, an integer; the number of ticks in one
  second is fixed by the standard library and not by the program, so it is a parameter
  \<open>den\<close> of the sweep. The count is a signed 64-bit number in the program; the one
  place where the program computes with counts is the difference taken by the sweep.
\<close>

type_synonym addr = nat

definition nullptr :: addr where
  "nullptr = 0"

text \<open>\<^verbatim>\<open>struct MemoryBlock\<close>: address, size, allocation time, and the freed flag.\<close>

record MemoryBlock =
  address :: addr
  size_bytes :: nat
  allocationTime :: int
  isFreed :: bool

text \<open>
  The members of \<^verbatim>\<open>class GarbageCollector\<close> other than the thread handle.
  The vector of blocks is a list, in push order.
\<close>

record GarbageCollector =
  period :: int
  memoryBlocks :: "MemoryBlock list"
  running :: bool

text \<open>
  The memory of the process as the program sees it: the set of addresses that are
  currently allocated, what is stored at each address, and the addresses that were
  passed to \<^verbatim>\<open>free\<close>, in call order.
\<close>

record 'v memory =
  allocated :: "addr set"
  contents :: "addr \<Rightarrow> 'v"
  released :: "addr list"

text \<open>\<^verbatim>\<open>free(p)\<close>: nothing happens for the null pointer; any other address is released.\<close>

definition free :: "'v memory \<Rightarrow> addr \<Rightarrow> 'v memory" where
  "free m p =
     (if p = nullptr then m
      else m\<lparr>allocated := allocated m - {p}, released := released m @ [p]\<rparr>)"

text \<open>
  \<^verbatim>\<open>chrono::duration_cast<chrono::seconds>(d).count()\<close> on a difference of \<open>d\<close> ticks:
  an integer division that truncates towards zero.
\<close>

definition duration_cast_seconds :: "int \<Rightarrow> int \<Rightarrow> int" where
  "duration_cast_seconds den d = d sdiv den"

section \<open>The registry\<close>

text \<open>The constructor: period 900 ms, no blocks, running.\<close>

definition GarbageCollector_ctor :: GarbageCollector where
  "GarbageCollector_ctor = \<lparr>period = 900, memoryBlocks = [], running = True\<rparr>"

text \<open>
  What a call can end with other than a value: the exception \<^verbatim>\<open>bad_alloc\<close>, the
  early return of \<^verbatim>\<open>addMemoryBlock\<close> on a null address, and the two uses of a
  pointer that C++ leaves undefined (an object constructed at the null pointer, a
  dereference of an address that is not allocated).
\<close>

datatype error = bad_alloc | InvalidAddress | NullConstruction | InvalidDereference

text \<open>
  \<^verbatim>\<open>addMemoryBlock\<close>. The function is void: its early return on a null address is the
  branch \<open>Inl InvalidAddress\<close>, which carries no new state. The parameters
  \<^verbatim>\<open>isReallocation\<close> and \<^verbatim>\<open>prevAddr\<close> are not read. The clock reading taken inside
  the function is the argument \<open>now\<close>.
\<close>

definition addMemoryBlock ::
  "GarbageCollector \<Rightarrow> addr \<Rightarrow> nat \<Rightarrow> bool \<Rightarrow> addr \<Rightarrow> int \<Rightarrow> error + GarbageCollector" where
  "addMemoryBlock gc a sz isReallocation prevAddr now =
     (if a = nullptr then Inl InvalidAddress
      else Inr (gc\<lparr>memoryBlocks := memoryBlocks gc @
             [\<lparr>address = a, size_bytes = sz, allocationTime = now, isFreed = False\<rparr>]\<rparr>))"

text \<open>\<^verbatim>\<open>createObject\<close>, the public wrapper; void as well, so the caller sees only the state.\<close>

definition createObject :: "GarbageCollector \<Rightarrow> addr \<Rightarrow> nat \<Rightarrow> int \<Rightarrow> GarbageCollector" where
  "createObject gc a sz now =
     (case addMemoryBlock gc a sz False nullptr now of
        Inl e \<Rightarrow> gc
      | Inr gc' \<Rightarrow> gc')"



section \<open>The allocation hook\<close>

text \<open>
  The state of the process: its memory, the singleton (\<open>None\<close> while
  \<^verbatim>\<open>GarbageCollector::instance\<close> is null), the thread-local flag \<^verbatim>\<open>isRecursive\<close> of
  each thread, and the \<^verbatim>\<open>ptr\<close> field of each \<^verbatim>\<open>smartptr\<close> object, by the location of
  the object.
\<close>

type_synonym tid = nat
type_synonym hid = nat

record 'v process =
  mem :: "'v memory"
  instance_ptr :: "GarbageCollector option"
  isRecursive :: "tid \<Rightarrow> bool"
  handles :: "hid \<Rightarrow> addr"

text \<open>
  \<^verbatim>\<open>malloc\<close>. The platform allocator is a parameter: \<open>platform A n\<close> is the address it
  hands out for \<open>n\<close> bytes when the addresses \<open>A\<close> are allocated, the null pointer when
  it has no memory.
\<close>

definition malloc :: "(addr set \<Rightarrow> nat \<Rightarrow> addr) \<Rightarrow> 'v memory \<Rightarrow> nat \<Rightarrow> addr \<times> 'v memory" where
  "malloc platform m n =
     (let p = platform (allocated m) n
      in (p, if p = nullptr then m else m\<lparr>allocated := insert p (allocated m)\<rparr>))"

text \<open>
  \<^verbatim>\<open>operator new\<close> and \<^verbatim>\<open>GetInstance\<close> call each other: \<^verbatim>\<open>GetInstance\<close> creates the
  singleton with \<^verbatim>\<open>new\<close>. The first argument bounds the depth of nested calls of
  \<^verbatim>\<open>operator new\<close>; \<open>None\<close> means that the bound was exceeded. \<open>gcsize\<close> is
  \<^verbatim>\<open>sizeof(GarbageCollector)\<close>, \<open>t\<close> the calling thread. A thrown exception leaves the
  state as it was at the throw. What \<^verbatim>\<open>std::thread\<close> allocates, and the storage that
  \<^verbatim>\<open>memoryBlocks\<close> asks for when a registration makes it grow, are requests made with
  the flag set and are not modelled here; the requests of the vector of the sweep are
  modelled with the sweep.
\<close>

fun operator_new ::
  "nat \<Rightarrow> (addr set \<Rightarrow> nat \<Rightarrow> addr) \<Rightarrow> nat \<Rightarrow> tid \<Rightarrow> nat \<Rightarrow> int \<Rightarrow> 'v process
    \<Rightarrow> ((error + addr) \<times> 'v process) option"
and GetInstance ::
  "nat \<Rightarrow> (addr set \<Rightarrow> nat \<Rightarrow> addr) \<Rightarrow> nat \<Rightarrow> tid \<Rightarrow> int \<Rightarrow> 'v process
    \<Rightarrow> ((error + unit) \<times> 'v process) option" where
  "operator_new 0 platform gcsize t n now st = None"
| "operator_new (Suc d) platform gcsize t n now st =
     (if isRecursive st t
      then (case malloc platform (mem st) n of (p, m') \<Rightarrow> Some (Inr p, st\<lparr>mem := m'\<rparr>))
      else
        (let st1 = st\<lparr>isRecursive := (isRecursive st)(t := True)\<rparr>
         in case malloc platform (mem st1) n of
           (p, m') \<Rightarrow>
             let st2 = st1\<lparr>mem := m'\<rparr>
             in if p = nullptr then Some (Inl bad_alloc, st2)
                else
                  (case GetInstance d platform gcsize t now st2 of
                     None \<Rightarrow> None
                   | Some (Inl e, st3) \<Rightarrow> Some (Inl e, st3)
                   | Some (Inr u, st3) \<Rightarrow>
                       let st4 = st3\<lparr>instance_ptr :=
                                   map_option (\<lambda>gc. createObject gc p n now) (instance_ptr st3)\<rparr>
                       in Some (Inr p, st4\<lparr>isRecursive := (isRecursive st4)(t := False)\<rparr>))))"
| "GetInstance d platform gcsize t now st =
     (if instance_ptr st = None
      then
        (case operator_new d platform gcsize t gcsize now st of
           None \<Rightarrow> None
         | Some (Inl e, st1) \<Rightarrow> Some (Inl e, st1)
         | Some (Inr p, st1) \<Rightarrow>
             if p = nullptr then Some (Inl NullConstruction, st1)
             else Some (Inr (), st1\<lparr>instance_ptr := Some GarbageCollector_ctor\<rparr>))
      else Some (Inr (), st))"

section \<open>The sweep\<close>

text \<open>
  \<^verbatim>\<open>now - block.allocationTime\<close>: the difference of two tick counts in signed 64-bit
  arithmetic, with the wrap-around written out.
\<close>

definition time_diff :: "int \<Rightarrow> int \<Rightarrow> int" where
  "time_diff now t0 = (now - t0 + 2 ^ 63) mod 2 ^ 64 - 2 ^ 63"

text \<open>
  \<^verbatim>\<open>newBlocks.push_back(block)\<close>. The vector \<^verbatim>\<open>newBlocks\<close> is its elements and its
  capacity \<open>nc\<close>. While there is room the block is stored in place. A full vector asks
  for new storage, and the request reaches the program again: it is a call of the
  replaced \<^verbatim>\<open>operator new\<close> on the sweeping thread \<open>t\<close>, which, when the flag of that
  thread is clear, registers the storage it hands out by pushing a record onto
  \<^verbatim>\<open>memoryBlocks\<close>, the vector that the sweep is iterating. If that push finds
  \<^verbatim>\<open>memoryBlocks\<close> full, its elements move to new storage and the old storage is given
  back; \<^verbatim>\<open>block\<close>, a reference into the old storage, is then read to copy the kept
  record, which is a read of memory that is no longer allocated.

  The standard library decides three things, which are parameters: the capacity
  \<open>grow c\<close> that a full vector of capacity \<open>c\<close> gets (\<open>max 1 (2 * c)\<close> in libstdc++),
  the size \<open>blocksize\<close> of one \<^verbatim>\<open>MemoryBlock\<close>, and the capacity \<open>cap\<close> that
  \<^verbatim>\<open>memoryBlocks\<close> has when the sweep starts. The storage that the vectors give back
  goes through the default \<^verbatim>\<open>operator delete\<close> inside the library and is not traced.
  The clock reading of a registration made during the sweep is taken to be \<open>now\<close>.
\<close>

definition newBlocks_push_back ::
  "nat \<Rightarrow> (addr set \<Rightarrow> nat \<Rightarrow> addr) \<Rightarrow> nat \<Rightarrow> nat \<Rightarrow> (nat \<Rightarrow> nat) \<Rightarrow> int \<Rightarrow> tid \<Rightarrow> nat
    \<Rightarrow> 'v process \<Rightarrow> MemoryBlock list \<Rightarrow> nat \<Rightarrow> MemoryBlock
    \<Rightarrow> ((error + MemoryBlock list \<times> nat) \<times> 'v process) option" where
  "newBlocks_push_back d platform gcsize blocksize grow now t cap st newBlocks nc block =
     (if length newBlocks < nc then Some (Inr (newBlocks @ [block], nc), st)
      else
        (case operator_new d platform gcsize t (grow nc * blocksize) now st of
           None \<Rightarrow> None
         | Some (Inl e, st1) \<Rightarrow> Some (Inl e, st1)
         | Some (Inr p, st1) \<Rightarrow>
             if p = nullptr then Some (Inl NullConstruction, st1)
             else if cap < (case instance_ptr st1 of None \<Rightarrow> 0 | Some gc \<Rightarrow> length (memoryBlocks gc))
               then Some (Inl InvalidDereference, st1)
               else Some (Inr (newBlocks @ [block], grow nc), st1)))"

text \<open>
  The loop of \<^verbatim>\<open>collectGarbage\<close> over the elements that \<^verbatim>\<open>memoryBlocks\<close> has when the
  loop starts, with the state of the process and the vector \<^verbatim>\<open>newBlocks\<close> as they
  stand after each block. An exception or an undefined read ends the loop.
\<close>

fun sweep_loop ::
  "nat \<Rightarrow> (addr set \<Rightarrow> nat \<Rightarrow> addr) \<Rightarrow> nat \<Rightarrow> nat \<Rightarrow> (nat \<Rightarrow> nat) \<Rightarrow> int \<Rightarrow> int \<Rightarrow> tid \<Rightarrow> nat
    \<Rightarrow> MemoryBlock list \<Rightarrow> 'v process \<Rightarrow> MemoryBlock list \<Rightarrow> nat
    \<Rightarrow> ((error + MemoryBlock list \<times> nat) \<times> 'v process) option" where
  "sweep_loop d platform gcsize blocksize grow den now t cap [] st newBlocks nc =
     Some (Inr (newBlocks, nc), st)"
| "sweep_loop d platform gcsize blocksize grow den now t cap (block # rest) st newBlocks nc =
     (if isFreed block
      then sweep_loop d platform gcsize blocksize grow den now t cap rest st newBlocks nc
      else if duration_cast_seconds den (time_diff now (allocationTime block)) \<ge> 5
        then sweep_loop d platform gcsize blocksize grow den now t cap rest
               (st\<lparr>mem := free (mem st) (address block)\<rparr>) newBlocks nc
        else
          (case newBlocks_push_back d platform gcsize blocksize grow now t cap st newBlocks nc block of
             None \<Rightarrow> None
           | Some (Inl e, st1) \<Rightarrow> Some (Inl e, st1)
           | Some (Inr (newBlocks1, nc1), st1) \<Rightarrow>
               sweep_loop d platform gcsize blocksize grow den now t cap rest st1 newBlocks1 nc1))"

text \<open>
  \<^verbatim>\<open>collectGarbage\<close>, a member function of the singleton, run by thread \<open>t\<close> (the timer
  thread, or the caller of \<^verbatim>\<open>manualGarbage\<close>) with the clock reading \<open>now\<close>. When the
  loop has run through, \<^verbatim>\<open>newBlocks\<close> is moved into \<^verbatim>\<open>memoryBlocks\<close>: the records
  pushed during the sweep go with the old vector, and the result is the capacity that
  \<^verbatim>\<open>memoryBlocks\<close> now has.
\<close>

definition collectGarbage ::
  "nat \<Rightarrow> (addr set \<Rightarrow> nat \<Rightarrow> addr) \<Rightarrow> nat \<Rightarrow> nat \<Rightarrow> (nat \<Rightarrow> nat) \<Rightarrow> int \<Rightarrow> int \<Rightarrow> tid \<Rightarrow> nat
    \<Rightarrow> 'v process \<Rightarrow> ((error + nat) \<times> 'v process) option" where
  "collectGarbage d platform gcsize blocksize grow den now t cap st =
     (case sweep_loop d platform gcsize blocksize grow den now t cap
             (case instance_ptr st of None \<Rightarrow> [] | Some gc \<Rightarrow> memoryBlocks gc) st [] 0 of
        None \<Rightarrow> None
      | Some (Inl e, st1) \<Rightarrow> Some (Inl e, st1)
      | Some (Inr (newBlocks, nc), st1) \<Rightarrow>
          Some (Inr nc,
            st1\<lparr>instance_ptr := map_option (\<lambda>gc. gc\<lparr>memoryBlocks := newBlocks\<rparr>) (instance_ptr st1)\<rparr>))"

section \<open>The ownership handle\<close>

text \<open>
  \<^verbatim>\<open>delete p\<close> with the default \<^verbatim>\<open>operator delete\<close>, which the program does not
  replace: the memory goes back to the platform allocator.
\<close>

definition delete_expr :: "'v process \<Rightarrow> addr \<Rightarrow> 'v process" where
  "delete_expr st p = st\<lparr>mem := free (mem st) p\<rparr>"

text \<open>The constructor from a raw pointer, the destructor (empty) and assignment of a raw pointer.\<close>

definition smartptr_ctor :: "'v process \<Rightarrow> hid \<Rightarrow> addr \<Rightarrow> 'v process" where
  "smartptr_ctor st this p = st\<lparr>handles := (handles st)(this := p)\<rparr>"

definition smartptr_dtor :: "'v process \<Rightarrow> hid \<Rightarrow> 'v process" where
  "smartptr_dtor st this = st"

definition smartptr_assign_raw :: "'v process \<Rightarrow> hid \<Rightarrow> addr \<Rightarrow> 'v process" where
  "smartptr_assign_raw st this p = st\<lparr>handles := (handles st)(this := p)\<rparr>"


text \<open>The move constructor and move assignment, statement by statement.\<close>

definition smartptr_move_ctor :: "'v process \<Rightarrow> hid \<Rightarrow> hid \<Rightarrow> 'v process" where
  "smartptr_move_ctor st this other =
     (let st1 = st\<lparr>handles := (handles st)(this := handles st other)\<rparr>
      in st1\<lparr>handles := (handles st1)(other := nullptr)\<rparr>)"

definition smartptr_move_assign :: "'v process \<Rightarrow> hid \<Rightarrow> hid \<Rightarrow> 'v process" where
  "smartptr_move_assign st this other =
     (if this \<noteq> other
      then
        (let st1 = delete_expr st (handles st this);
             st2 = st1\<lparr>handles := (handles st1)(this := handles st1 other)\<rparr>
         in st2\<lparr>handles := (handles st2)(other := nullptr)\<rparr>)
      else st)"

text \<open>
  The two outcomes of the loop body of \<^verbatim>\<open>collectGarbage\<close> for a block that is not
  skipped: freed, or pushed to \<^verbatim>\<open>newBlocks\<close>.
\<close>

definition expired :: "int \<Rightarrow> int \<Rightarrow> MemoryBlock \<Rightarrow> bool" where
  "expired den now b =
     (\<not> isFreed b \<and> 5 \<le> duration_cast_seconds den (time_diff now (allocationTime b)))"

definition retained :: "int \<Rightarrow> int \<Rightarrow> MemoryBlock \<Rightarrow> bool" where
  "retained den now b =
     (\<not> isFreed b \<and> \<not> 5 \<le> duration_cast_seconds den (time_diff now (allocationTime b)))"

text \<open>
  What a call of \<^verbatim>\<open>operator new\<close> leaves alone: the addresses passed to \<^verbatim>\<open>free\<close> so
  far, and the existence of the singleton.
\<close>

definition keeps_log :: "'v process \<Rightarrow> 'v process \<Rightarrow> bool" where
  "keeps_log st st' =
     (released (mem st') = released (mem st) \<and> (instance_ptr st \<noteq> None \<longrightarrow> instance_ptr st' \<noteq> None))"

section \<open>Registration\<close>


text \<open>
  C4. Registering the null address takes the early return of \<^verbatim>\<open>addMemoryBlock\<close>, the
  \<open>InvalidAddress\<close> outcome: no record is created, and the registry, its records and
  their number are what they were.
\<close>

theorem register_null:
  "addMemoryBlock gc nullptr sz isReallocation prevAddr now = Inl InvalidAddress \<and>
   createObject gc nullptr sz now = gc \<and>
   memoryBlocks (createObject gc nullptr sz now) = memoryBlocks gc \<and>
   length (memoryBlocks (createObject gc nullptr sz now)) = length (memoryBlocks gc)"
  by (simp add: addMemoryBlock_def createObject_def)




section \<open>Allocation through the hook\<close>

lemma operator_new_nested:
  "isRecursive st t \<Longrightarrow>
   operator_new (Suc d) platform gcsize t n now st =
     Some (Inr (fst (malloc platform (mem st) n)), st\<lparr>mem := snd (malloc platform (mem st) n)\<rparr>)"
  by (simp add: case_prod_beta)

lemma GetInstance_nested:
  "isRecursive st t \<Longrightarrow> GetInstance (Suc d) platform gcsize t now st \<noteq> None"
  by (simp add: operator_new_nested del: operator_new.simps)

lemma operator_new_outer:
  "operator_new (Suc (Suc d)) platform gcsize t n now st \<noteq> None"
proof (cases "isRecursive st t")
  case True
  then show ?thesis by (simp add: operator_new_nested del: operator_new.simps)
next
  case False
  obtain p m' where pm: "malloc platform (mem st) n = (p, m')" by (cases "malloc platform (mem st) n")
  let ?st2 = "st\<lparr>isRecursive := (isRecursive st)(t := True), mem := m'\<rparr>"
  have "isRecursive ?st2 t" by simp
  then have g: "GetInstance (Suc d) platform gcsize t now ?st2 \<noteq> None"
    by (rule GetInstance_nested)
  show ?thesis
  proof (cases "p = nullptr")
    case True
    then show ?thesis using False pm by (simp del: GetInstance.simps)
  next
    case nn: False
    from g obtain r st3 where "GetInstance (Suc d) platform gcsize t now ?st2 = Some (r, st3)"
      by (cases "GetInstance (Suc d) platform gcsize t now ?st2") auto
    then show ?thesis using False pm nn
      by (cases r) (simp_all del: GetInstance.simps)
  qed
qed

lemma released_malloc: "released (snd (malloc platform m n)) = released m"
  by (simp add: malloc_def Let_def)

lemma keeps_log_refl: "keeps_log st st"
  by (simp add: keeps_log_def)

lemma keeps_log_trans: "keeps_log a b \<Longrightarrow> keeps_log b c \<Longrightarrow> keeps_log a c"
  by (simp add: keeps_log_def)

lemma GetInstance_keeps_log:
  fixes st :: "'v process"
  assumes new: "\<And>n (s :: 'v process) q s'. operator_new d platform gcsize t n now s = Some (q, s') \<Longrightarrow>
                  keeps_log s s'"
    and g: "GetInstance d platform gcsize t now st = Some (r, st')"
  shows "keeps_log st st'"
proof (cases "instance_ptr st = None")
  case False
  then obtain gc where "instance_ptr st = Some gc" by auto
  then have "st' = st" using g by simp
  then show ?thesis by (simp add: keeps_log_refl)
next
  case True
  show ?thesis
  proof (cases "operator_new d platform gcsize t gcsize now st")
    case None
    then show ?thesis using g True by simp
  next
    case (Some a)
    obtain q st1 where a: "a = (q, st1)" by (cases a)
    have l1: "keeps_log st st1" using new [of gcsize st q st1] Some a by simp
    show ?thesis using g True Some a l1
      by (cases q) (auto simp add: keeps_log_def split: if_splits)
  qed
qed

lemma operator_new_keeps_log:
  "operator_new d platform gcsize t n now st = Some (r, st') \<Longrightarrow> keeps_log st st'"
proof (induction d arbitrary: n st r st')
  case 0
  then show ?case by simp
next
  case (Suc d)
  obtain p m' where pm: "malloc platform (mem st) n = (p, m')" by (cases "malloc platform (mem st) n")
  have rm: "released m' = released (mem st)" using released_malloc [of platform "mem st" n] pm by simp
  show ?case
  proof (cases "isRecursive st t")
    case True
    then show ?thesis using Suc.prems pm rm by (auto simp add: keeps_log_def)
  next
    case False
    let ?st2 = "st\<lparr>isRecursive := (isRecursive st)(t := True), mem := m'\<rparr>"
    have l2: "keeps_log st ?st2" using rm by (simp add: keeps_log_def)
    show ?thesis
    proof (cases "p = nullptr")
      case True
      then show ?thesis using Suc.prems False pm l2 by (auto simp del: GetInstance.simps)
    next
      case nn: False
      show ?thesis
      proof (cases "GetInstance d platform gcsize t now ?st2")
        case None
        then show ?thesis using Suc.prems(1) False pm nn by (simp del: GetInstance.simps)
      next
        case (Some a)
        obtain q st3 where a: "a = (q, st3)" by (cases a)
        have l3: "keeps_log ?st2 st3"
          using GetInstance_keeps_log [of d platform gcsize t now ?st2 q st3] Suc.IH Some a by blast
        have l4: "keeps_log st st3" using l2 l3 by (rule keeps_log_trans)
        show ?thesis
          using Suc.prems(1) False pm nn Some a l4
          by (cases q) (auto simp add: keeps_log_def simp del: GetInstance.simps)
      qed
    qed
  qed
qed

text \<open>
  C8. A call of \<^verbatim>\<open>operator new\<close> on a thread whose flag \<^verbatim>\<open>isRecursive\<close> is set
  returns what the platform allocator returned and changes nothing but the memory:
  the registry and the flags are as before, and the call makes no nested call (a depth
  bound of one suffices). Every call, in every state, returns within a nesting depth
  of two.
\<close>

theorem nested_allocation_bypass:
  "(isRecursive st t \<longrightarrow>
      operator_new (Suc d) platform gcsize t n now st =
        Some (Inr (platform (allocated (mem st)) n), st\<lparr>mem := snd (malloc platform (mem st) n)\<rparr>) \<and>
      instance_ptr (st\<lparr>mem := snd (malloc platform (mem st) n)\<rparr>) = instance_ptr st \<and>
      isRecursive (st\<lparr>mem := snd (malloc platform (mem st) n)\<rparr>) = isRecursive st) \<and>
   (\<exists>res. operator_new (Suc (Suc d)) platform gcsize t n now st = Some res)"
proof -
  have a: "fst (malloc platform (mem st) n) = platform (allocated (mem st)) n"
    by (simp add: malloc_def Let_def)
  have b: "\<exists>res. operator_new (Suc (Suc d)) platform gcsize t n now st = Some res"
    using operator_new_outer [of d platform gcsize t n now st] by auto
  show ?thesis using a b operator_new_nested [of st t d platform gcsize n now]
    by (simp del: operator_new.simps(2))
qed

theorem nested_allocation_bypass_witness:
  "operator_new 1 (\<lambda>A n. 7) 64 0 4 100
      \<lparr>mem = \<lparr>allocated = {}, contents = (\<lambda>a. 0::int), released = []\<rparr>,
        instance_ptr = Some GarbageCollector_ctor, isRecursive = (\<lambda>t. True), handles = (\<lambda>h. nullptr)\<rparr>
    = Some (Inr 7,
      \<lparr>mem = \<lparr>allocated = {7}, contents = (\<lambda>a. 0::int), released = []\<rparr>,
        instance_ptr = Some GarbageCollector_ctor, isRecursive = (\<lambda>t. True), handles = (\<lambda>h. nullptr)\<rparr>)"
proof -
  let ?st = "\<lparr>mem = \<lparr>allocated = {}, contents = (\<lambda>a. 0::int), released = []\<rparr>,
        instance_ptr = Some GarbageCollector_ctor, isRecursive = (\<lambda>t. True), handles = (\<lambda>h. nullptr)\<rparr>"
  have h: "isRecursive ?st 0" by simp
  show ?thesis
    using nested_allocation_bypass [of ?st 0 0 "\<lambda>A n. 7" 64 4 100] h
    by (simp add: malloc_def nullptr_def del: operator_new.simps)
qed

text \<open>
  C5 at the failing input. With the flag set and the platform allocator out of memory,
  \<^verbatim>\<open>operator new\<close> returns the null pointer as its result; with the flag clear the same
  request throws \<^verbatim>\<open>bad_alloc\<close>. When the nested \<^verbatim>\<open>new GarbageCollector()\<close> of the
  first allocation is the request that fails, the singleton is constructed at the
  null pointer.
\<close>

theorem nested_allocation_failure:
  "operator_new 1 (\<lambda>A n. nullptr) 64 0 4 100
      \<lparr>mem = \<lparr>allocated = {}, contents = (\<lambda>a. 0::int), released = []\<rparr>,
        instance_ptr = None, isRecursive = (\<lambda>t. True), handles = (\<lambda>h. nullptr)\<rparr>
    = Some (Inr nullptr,
      \<lparr>mem = \<lparr>allocated = {}, contents = (\<lambda>a. 0::int), released = []\<rparr>,
        instance_ptr = None, isRecursive = (\<lambda>t. True), handles = (\<lambda>h. nullptr)\<rparr>) \<and>
   fst (the (operator_new 1 (\<lambda>A n. nullptr) 64 0 4 100
      \<lparr>mem = \<lparr>allocated = {}, contents = (\<lambda>a. 0::int), released = []\<rparr>,
        instance_ptr = None, isRecursive = (\<lambda>t. False), handles = (\<lambda>h. nullptr)\<rparr>))
    = Inl bad_alloc \<and>
   fst (the (operator_new 2 (\<lambda>A n. if n = 64 then nullptr else 7) 64 0 4 100
      \<lparr>mem = \<lparr>allocated = {}, contents = (\<lambda>a. 0::int), released = []\<rparr>,
        instance_ptr = None, isRecursive = (\<lambda>t. False), handles = (\<lambda>h. nullptr)\<rparr>))
    = Inl NullConstruction"
  by (simp add: numeral_2_eq_2 malloc_def nullptr_def)

section \<open>Sweeps\<close>

lemma push_back_total:
  "newBlocks_push_back (Suc (Suc d)) platform gcsize blocksize grow now t cap st nb nc block \<noteq> None"
proof -
  obtain r s where "operator_new (Suc (Suc d)) platform gcsize t (grow nc * blocksize) now st = Some (r, s)"
    using operator_new_outer [of d platform gcsize t "grow nc * blocksize" now st] by auto
  then show ?thesis
    by (cases r) (simp_all add: newBlocks_push_back_def del: operator_new.simps)
qed

lemma sweep_loop_total:
  "sweep_loop (Suc (Suc d)) platform gcsize blocksize grow den now t cap bs st nb nc \<noteq> None"
proof (induction bs arbitrary: st nb nc)
  case Nil
  then show ?case by simp
next
  case (Cons block rest)
  obtain r s where pb: "newBlocks_push_back (Suc (Suc d)) platform gcsize blocksize grow now t cap st nb nc block = Some (r, s)"
    using push_back_total [of d platform gcsize blocksize grow now t cap st nb nc block] by auto
  show ?case
  proof (cases r)
    case (Inl e)
    then show ?thesis using pb Cons.IH by simp
  next
    case (Inr v)
    then show ?thesis using pb Cons.IH by (cases v) simp
  qed
qed

lemma collectGarbage_total:
  "collectGarbage (Suc (Suc d)) platform gcsize blocksize grow den now t cap st \<noteq> None"
proof -
  obtain r s where "sweep_loop (Suc (Suc d)) platform gcsize blocksize grow den now t cap
             (case instance_ptr st of None \<Rightarrow> [] | Some gc \<Rightarrow> memoryBlocks gc) st [] 0 = Some (r, s)"
    using sweep_loop_total [of d platform gcsize blocksize grow den now t cap _ st "[]" 0] by fastforce
  then show ?thesis
    by (cases r) (auto simp add: collectGarbage_def)
qed

lemma released_free: "released (free m p) = released m @ (if p = nullptr then [] else [p])"
  by (simp add: free_def)

lemma push_back_completed:
  assumes "newBlocks_push_back d platform gcsize blocksize grow now t cap st nb nc block = Some (Inr (nb', nc'), st')"
  shows "nb' = nb @ [block] \<and> keeps_log st st'"
proof (cases "length nb < nc")
  case True
  then show ?thesis using assms by (auto simp add: newBlocks_push_back_def keeps_log_refl)
next
  case False
  show ?thesis
  proof (cases "operator_new d platform gcsize t (grow nc * blocksize) now st")
    case None
    then show ?thesis using assms False by (simp add: newBlocks_push_back_def)
  next
    case (Some a)
    obtain q s where a: "a = (q, s)" by (cases a)
    have k: "keeps_log st s" using operator_new_keeps_log Some a by blast
    show ?thesis using assms False Some a k
      by (cases q) (auto simp add: newBlocks_push_back_def split: if_splits)
  qed
qed

lemma sweep_loop_completed:
  "sweep_loop d platform gcsize blocksize grow den now t cap bs st nb nc = Some (Inr (nb', nc'), st') \<Longrightarrow>
   nb' = nb @ filter (retained den now) bs \<and>
   released (mem st') =
     released (mem st) @ filter (\<lambda>p. p \<noteq> nullptr) (map address (filter (expired den now) bs)) \<and>
   (instance_ptr st \<noteq> None \<longrightarrow> instance_ptr st' \<noteq> None)"
proof (induction bs arbitrary: st nb nc)
  case Nil
  then show ?case by simp
next
  case (Cons block rest)
  show ?case
  proof (cases "isFreed block")
    case True
    then show ?thesis using Cons.prems Cons.IH [of st nb nc] by (simp add: retained_def expired_def)
  next
    case live: False
    show ?thesis
    proof (cases "5 \<le> duration_cast_seconds den (time_diff now (allocationTime block))")
      case True
      then show ?thesis
        using Cons.prems live Cons.IH [of "st\<lparr>mem := free (mem st) (address block)\<rparr>" nb nc]
        by (simp add: retained_def expired_def released_free)
    next
      case False
      show ?thesis
      proof (cases "newBlocks_push_back d platform gcsize blocksize grow now t cap st nb nc block")
        case None
        then show ?thesis using Cons.prems live False by simp
      next
        case (Some a)
        obtain q s where a: "a = (q, s)" by (cases a)
        show ?thesis
        proof (cases q)
          case (Inl e)
          then show ?thesis using Cons.prems live False Some a by simp
        next
          case (Inr v)
          obtain nb1 nc1 where v: "v = (nb1, nc1)" by (cases v)
          have pb: "nb1 = nb @ [block] \<and> keeps_log st s"
            using push_back_completed [of d platform gcsize blocksize grow now t cap st nb nc block nb1 nc1 s]
              Some a Inr v by simp
          have rest: "sweep_loop d platform gcsize blocksize grow den now t cap rest s nb1 nc1 = Some (Inr (nb', nc'), st')"
            using Cons.prems live False Some a Inr v by simp
          show ?thesis
            using Cons.IH [OF rest] pb live False
            by (simp add: retained_def expired_def keeps_log_def)
        qed
      qed
    qed
  qed
qed

lemma collectGarbage_completed:
  assumes fin: "collectGarbage d platform gcsize blocksize grow den now t cap st = Some (Inr c, st')"
    and inst: "instance_ptr st = Some gc"
  shows "\<exists>gc'. instance_ptr st' = Some gc' \<and>
           memoryBlocks gc' = filter (retained den now) (memoryBlocks gc)"
    and "released (mem st') =
           released (mem st) @ filter (\<lambda>p. p \<noteq> nullptr) (map address (filter (expired den now) (memoryBlocks gc)))"
proof -
  obtain nb s where sl: "sweep_loop d platform gcsize blocksize grow den now t cap (memoryBlocks gc) st [] 0
        = Some (Inr (nb, c), s)"
    and st': "st' = s\<lparr>instance_ptr := map_option (\<lambda>g. g\<lparr>memoryBlocks := nb\<rparr>) (instance_ptr s)\<rparr>"
    using fin inst
    by (auto simp add: collectGarbage_def split: option.splits sum.splits prod.splits)
  note c = sweep_loop_completed [OF sl]
  from c inst obtain g where g: "instance_ptr s = Some g" by auto
  show "\<exists>gc'. instance_ptr st' = Some gc' \<and>
           memoryBlocks gc' = filter (retained den now) (memoryBlocks gc)"
    using c g st' by simp
  show "released (mem st') =
           released (mem st) @ filter (\<lambda>p. p \<noteq> nullptr) (map address (filter (expired den now) (memoryBlocks gc)))"
    using c st' by simp
qed

lemma time_diff_in_range:
  assumes "- (2 ^ 63) \<le> now - t0" "now - t0 < 2 ^ 63"
  shows "time_diff now t0 = now - t0"
proof -
  have "0 \<le> now - t0 + 2 ^ 63" using assms by simp
  moreover have "now - t0 + 2 ^ 63 < 2 ^ 64" using assms by simp
  ultimately have "(now - t0 + 2 ^ 63) mod 2 ^ 64 = now - t0 + 2 ^ 63"
    by (rule mod_pos_pos_trivial)
  then show ?thesis by (simp add: time_diff_def)
qed

lemma div_ge5:
  assumes "0 < (den::int)"
  shows "(5 \<le> d div den) = (5 * den \<le> d)"
proof
  assume h: "5 \<le> d div den"
  have a: "5 * den \<le> (d div den) * den" using h assms by (simp add: mult_right_mono)
  have b: "0 \<le> d mod den" using assms by simp
  have c: "(d div den) * den + d mod den = d" by simp
  show "5 * den \<le> d" using a b c by linarith
next
  assume "5 * den \<le> d"
  then have "(5 * den) div den \<le> d div den" using assms by (rule zdiv_mono1)
  then show "5 \<le> d div den" using assms by simp
qed

lemma cast_ge5:
  assumes "0 < den"
  shows "(5 \<le> duration_cast_seconds den d) = (5 * den \<le> d)"
proof (cases "0 \<le> d")
  case True
  then have "duration_cast_seconds den d = d div den"
    using assms by (simp add: duration_cast_seconds_def signed_divide_int_def sgn_if)
  then show ?thesis using div_ge5 [OF assms] by simp
next
  case False
  then have "duration_cast_seconds den d \<le> 0"
    using assms by (simp add: duration_cast_seconds_def signed_divide_int_def sgn_if pos_imp_zdiv_nonneg_iff)
  moreover have "d < 5 * den" using False assms by simp
  ultimately show ?thesis by simp
qed

text \<open>
  A sweep that runs through keeps the live records that have not reached the window
  of 5 seconds and frees the others, as long as the difference of the tick counts is
  inside the 64-bit range.
\<close>

lemma completed_sweep_retention:
  assumes fin: "collectGarbage d platform gcsize blocksize grow den now t cap st = Some (Inr c, st')"
    and inst: "instance_ptr st = Some gc"
    and blk: "block \<in> set (memoryBlocks gc)" "\<not> isFreed block" "address block \<noteq> nullptr"
    and den: "0 < den"
    and range: "- (2 ^ 63) \<le> now - allocationTime block" "now - allocationTime block < 2 ^ 63"
  shows "\<exists>gc'. instance_ptr st' = Some gc' \<and>
           (now - allocationTime block < 5 * den \<longrightarrow> block \<in> set (memoryBlocks gc')) \<and>
           (5 * den \<le> now - allocationTime block \<longrightarrow>
              block \<notin> set (memoryBlocks gc') \<and>
              address block \<in> set (drop (length (released (mem st))) (released (mem st'))))"
proof -
  have e: "expired den now block = (5 * den \<le> now - allocationTime block)"
    using blk cast_ge5 [OF den, of "now - allocationTime block"] time_diff_in_range [OF range]
    by (simp add: expired_def)
  have r: "retained den now block = (now - allocationTime block < 5 * den)"
    using blk cast_ge5 [OF den, of "now - allocationTime block"] time_diff_in_range [OF range]
    by (auto simp add: retained_def)
  from collectGarbage_completed(1) [OF fin inst] obtain gc' where
    g: "instance_ptr st' = Some gc'" "memoryBlocks gc' = filter (retained den now) (memoryBlocks gc)"
    by auto
  have rel: "drop (length (released (mem st))) (released (mem st')) =
      filter (\<lambda>p. p \<noteq> nullptr) (map address (filter (expired den now) (memoryBlocks gc)))"
    using collectGarbage_completed(2) [OF fin inst] by simp
  have "address block \<in> set (drop (length (released (mem st))) (released (mem st')))"
    if "5 * den \<le> now - allocationTime block"
    using that e blk rel by (force simp add: image_iff)
  then show ?thesis using g r e blk by auto
qed

text \<open>
  C1 at the failing input. Ticks are milliseconds. The registry holds one record,
  registered at time 0, in a vector of capacity one. The sweep at 4999 keeps the
  record: pushing it to \<^verbatim>\<open>newBlocks\<close> asks for storage, \<^verbatim>\<open>operator new\<close> registers
  that storage with a push onto the full vector \<^verbatim>\<open>memoryBlocks\<close>, which then holds two
  records in new storage, and the kept record is copied through a reference into the
  storage that was given back. The sweep at 5000 frees the address and removes the record.
\<close>

theorem sweep_reads_released_storage:
  "map_option fst (collectGarbage 2 (\<lambda>A n. 7) 64 32 (\<lambda>c. max 1 (2 * c)) 1000 4999 1 1
      \<lparr>mem = \<lparr>allocated = {1}, contents = (\<lambda>a. 0::int), released = []\<rparr>,
        instance_ptr = Some \<lparr>period = 900,
          memoryBlocks = [\<lparr>address = 1, size_bytes = 4, allocationTime = 0, isFreed = False\<rparr>],
          running = True\<rparr>,
        isRecursive = (\<lambda>t. False), handles = (\<lambda>h. nullptr)\<rparr>) = Some (Inl InvalidDereference) \<and>
   map_option (\<lambda>r. map_option (map address \<circ> memoryBlocks) (instance_ptr (snd r)))
     (collectGarbage 2 (\<lambda>A n. 7) 64 32 (\<lambda>c. max 1 (2 * c)) 1000 4999 1 1
      \<lparr>mem = \<lparr>allocated = {1}, contents = (\<lambda>a. 0::int), released = []\<rparr>,
        instance_ptr = Some \<lparr>period = 900,
          memoryBlocks = [\<lparr>address = 1, size_bytes = 4, allocationTime = 0, isFreed = False\<rparr>],
          running = True\<rparr>,
        isRecursive = (\<lambda>t. False), handles = (\<lambda>h. nullptr)\<rparr>) = Some (Some [1, 7]) \<and>
   map_option (\<lambda>r. (fst r, released (mem (snd r)), map_option memoryBlocks (instance_ptr (snd r))))
     (collectGarbage 2 (\<lambda>A n. 7) 64 32 (\<lambda>c. max 1 (2 * c)) 1000 5000 1 1
      \<lparr>mem = \<lparr>allocated = {1}, contents = (\<lambda>a. 0::int), released = []\<rparr>,
        instance_ptr = Some \<lparr>period = 900,
          memoryBlocks = [\<lparr>address = 1, size_bytes = 4, allocationTime = 0, isFreed = False\<rparr>],
          running = True\<rparr>,
        isRecursive = (\<lambda>t. False), handles = (\<lambda>h. nullptr)\<rparr>) = Some (Inr 0, [1], Some [])"
  by (simp add: collectGarbage_def newBlocks_push_back_def time_diff_def duration_cast_seconds_def
        signed_divide_int_def free_def malloc_def nullptr_def numeral_2_eq_2
        createObject_def addMemoryBlock_def GarbageCollector_ctor_def)

text \<open>
  C3 at the failing input. Address 1 is registered twice while it is live. When both
  records have expired, one sweep passes the address to \<^verbatim>\<open>free\<close> twice. When the
  records expire one after the other (registered at 0 and 3, with another record
  beside them, in a vector of capacity four), the sweep at 5 frees the address and
  removes the first record, and the sweep at 8 frees the same address again.
\<close>

theorem sweep_frees_address_twice:
  "map_option (\<lambda>r. (fst r, released (mem (snd r)), map_option memoryBlocks (instance_ptr (snd r))))
     (collectGarbage 2 (\<lambda>A n. 7) 64 32 (\<lambda>c. max 1 (2 * c)) 1 5 1 2
      \<lparr>mem = \<lparr>allocated = {1}, contents = (\<lambda>a. 0::int), released = []\<rparr>,
        instance_ptr = Some (createObject (createObject GarbageCollector_ctor 1 4 0) 1 4 0),
        isRecursive = (\<lambda>t. False), handles = (\<lambda>h. nullptr)\<rparr>) = Some (Inr 0, [1, 1], Some []) \<and>
   map_option (\<lambda>r. (fst r, released (mem (snd r)),
                     map_option (map allocationTime \<circ> memoryBlocks) (instance_ptr (snd r))))
     (collectGarbage 2 (\<lambda>A n. 7) 64 32 (\<lambda>c. max 1 (2 * c)) 1 5 1 4
      \<lparr>mem = \<lparr>allocated = {1, 9}, contents = (\<lambda>a. 0::int), released = []\<rparr>,
        instance_ptr = Some (createObject (createObject (createObject GarbageCollector_ctor 1 4 0) 9 4 0) 1 4 3),
        isRecursive = (\<lambda>t. False), handles = (\<lambda>h. nullptr)\<rparr>) = Some (Inr 1, [1, 9], Some [3]) \<and>
   map_option (\<lambda>r. (fst r, released (mem (snd r)), map_option memoryBlocks (instance_ptr (snd r))))
     (case collectGarbage 2 (\<lambda>A n. 7) 64 32 (\<lambda>c. max 1 (2 * c)) 1 5 1 4
      \<lparr>mem = \<lparr>allocated = {1, 9}, contents = (\<lambda>a. 0::int), released = []\<rparr>,
        instance_ptr = Some (createObject (createObject (createObject GarbageCollector_ctor 1 4 0) 9 4 0) 1 4 3),
        isRecursive = (\<lambda>t. False), handles = (\<lambda>h. nullptr)\<rparr> of
        None \<Rightarrow> None
      | Some (Inl e, st1) \<Rightarrow> None
      | Some (Inr c, st1) \<Rightarrow> collectGarbage 2 (\<lambda>A n. 7) 64 32 (\<lambda>c. max 1 (2 * c)) 1 8 1 c st1)
     = Some (Inr 0, [1, 9, 1], Some [])"
  by (simp add: collectGarbage_def newBlocks_push_back_def time_diff_def duration_cast_seconds_def
        signed_divide_int_def free_def malloc_def nullptr_def numeral_2_eq_2
        createObject_def addMemoryBlock_def GarbageCollector_ctor_def)


section \<open>Ownership handles\<close>

text \<open>
  What each operation of a handle does to the memory: only move assignment between two
  different handles touches it, by deleting what the destination held.
\<close>

lemma handle_operations_memory:
  "mem (smartptr_ctor st this p) = mem st"
  "mem (smartptr_dtor st this) = mem st"
  "mem (smartptr_assign_raw st this p) = mem st"
  "mem (smartptr_move_ctor st this other) = mem st"
  "mem (smartptr_move_assign st this this) = mem st"
  "mem (smartptr_move_assign st this other) = (if this = other then mem st else free (mem st) (handles st this))"
  by (simp_all add: smartptr_ctor_def smartptr_dtor_def smartptr_assign_raw_def
        smartptr_move_ctor_def smartptr_move_assign_def delete_expr_def Let_def)

text \<open>
  C6 at the failing input. Handle 0 holds address 1, handle 1 holds address 2, and the
  registry tracks both. Move assignment of handle 1 to handle 0 releases address 1
  through \<^verbatim>\<open>delete ptr\<close>, while the registry keeps its record of it; the next sweep
  that finds the record expired passes address 1 to \<^verbatim>\<open>free\<close> a second time.
\<close>

theorem move_assign_releases:
  "handles (smartptr_move_assign
      \<lparr>mem = \<lparr>allocated = {1, 2}, contents = (\<lambda>a. 0::int), released = []\<rparr>,
        instance_ptr = Some \<lparr>period = 900,
          memoryBlocks = [\<lparr>address = 1, size_bytes = 8, allocationTime = 0, isFreed = False\<rparr>,
                          \<lparr>address = 2, size_bytes = 8, allocationTime = 0, isFreed = False\<rparr>],
          running = True\<rparr>,
        isRecursive = (\<lambda>t. False), handles = (\<lambda>h. if h = 0 then 1 else if h = 1 then 2 else nullptr)\<rparr>
      0 1) 0 = 2 \<and>
   mem (smartptr_move_assign
      \<lparr>mem = \<lparr>allocated = {1, 2}, contents = (\<lambda>a. 0::int), released = []\<rparr>,
        instance_ptr = Some \<lparr>period = 900,
          memoryBlocks = [\<lparr>address = 1, size_bytes = 8, allocationTime = 0, isFreed = False\<rparr>,
                          \<lparr>address = 2, size_bytes = 8, allocationTime = 0, isFreed = False\<rparr>],
          running = True\<rparr>,
        isRecursive = (\<lambda>t. False), handles = (\<lambda>h. if h = 0 then 1 else if h = 1 then 2 else nullptr)\<rparr>
      0 1) = \<lparr>allocated = {2}, contents = (\<lambda>a. 0::int), released = [1]\<rparr> \<and>
   map_option (map address \<circ> memoryBlocks) (instance_ptr (smartptr_move_assign
      \<lparr>mem = \<lparr>allocated = {1, 2}, contents = (\<lambda>a. 0::int), released = []\<rparr>,
        instance_ptr = Some \<lparr>period = 900,
          memoryBlocks = [\<lparr>address = 1, size_bytes = 8, allocationTime = 0, isFreed = False\<rparr>,
                          \<lparr>address = 2, size_bytes = 8, allocationTime = 0, isFreed = False\<rparr>],
          running = True\<rparr>,
        isRecursive = (\<lambda>t. False), handles = (\<lambda>h. if h = 0 then 1 else if h = 1 then 2 else nullptr)\<rparr>
      0 1)) = Some [1, 2] \<and>
   map_option (\<lambda>r. (fst r, released (mem (snd r))))
     (collectGarbage 2 (\<lambda>A n. 7) 64 32 (\<lambda>c. max 1 (2 * c)) 1 5 1 2 (smartptr_move_assign
      \<lparr>mem = \<lparr>allocated = {1, 2}, contents = (\<lambda>a. 0::int), released = []\<rparr>,
        instance_ptr = Some \<lparr>period = 900,
          memoryBlocks = [\<lparr>address = 1, size_bytes = 8, allocationTime = 0, isFreed = False\<rparr>,
                          \<lparr>address = 2, size_bytes = 8, allocationTime = 0, isFreed = False\<rparr>],
          running = True\<rparr>,
        isRecursive = (\<lambda>t. False), handles = (\<lambda>h. if h = 0 then 1 else if h = 1 then 2 else nullptr)\<rparr>
      0 1)) = Some (Inr 0, [1, 1, 2])"
  by (simp add: smartptr_move_assign_def delete_expr_def Let_def insert_commute
        collectGarbage_def newBlocks_push_back_def time_diff_def duration_cast_seconds_def
        free_def nullptr_def)




text \<open>
  C10 at the failing input. Ticks are milliseconds. Handle 0 holds address 1, which
  the registry tracks since time 0 beside address 2, in a vector of capacity two.
  Assigning the raw pointer 2 to the handle stores the pointer and changes neither
  the memory nor the registry: address 1 is still allocated and still has its
  record. The sweep at 4000 then keeps that record, and copies it through a
  reference into storage that was given back when the storage of \<^verbatim>\<open>newBlocks\<close> was
  registered.
\<close>

theorem raw_assignment_then_sweep:
  "handles (smartptr_assign_raw
      \<lparr>mem = \<lparr>allocated = {1, 2}, contents = (\<lambda>a. 0::int), released = []\<rparr>,
        instance_ptr = Some \<lparr>period = 900,
          memoryBlocks = [\<lparr>address = 1, size_bytes = 8, allocationTime = 0, isFreed = False\<rparr>,
                          \<lparr>address = 2, size_bytes = 8, allocationTime = 1000, isFreed = False\<rparr>],
          running = True\<rparr>,
        isRecursive = (\<lambda>t. False), handles = (\<lambda>h. if h = 0 then 1 else nullptr)\<rparr> 0 2) 0 = 2 \<and>
   mem (smartptr_assign_raw
      \<lparr>mem = \<lparr>allocated = {1, 2}, contents = (\<lambda>a. 0::int), released = []\<rparr>,
        instance_ptr = Some \<lparr>period = 900,
          memoryBlocks = [\<lparr>address = 1, size_bytes = 8, allocationTime = 0, isFreed = False\<rparr>,
                          \<lparr>address = 2, size_bytes = 8, allocationTime = 1000, isFreed = False\<rparr>],
          running = True\<rparr>,
        isRecursive = (\<lambda>t. False), handles = (\<lambda>h. if h = 0 then 1 else nullptr)\<rparr> 0 2) = \<lparr>allocated = {1, 2}, contents = (\<lambda>a. 0::int), released = []\<rparr> \<and>
   map_option memoryBlocks (instance_ptr (smartptr_assign_raw
      \<lparr>mem = \<lparr>allocated = {1, 2}, contents = (\<lambda>a. 0::int), released = []\<rparr>,
        instance_ptr = Some \<lparr>period = 900,
          memoryBlocks = [\<lparr>address = 1, size_bytes = 8, allocationTime = 0, isFreed = False\<rparr>,
                          \<lparr>address = 2, size_bytes = 8, allocationTime = 1000, isFreed = False\<rparr>],
          running = True\<rparr>,
        isRecursive = (\<lambda>t. False), handles = (\<lambda>h. if h = 0 then 1 else nullptr)\<rparr> 0 2)) =
     Some [\<lparr>address = 1, size_bytes = 8, allocationTime = 0, isFreed = False\<rparr>,
           \<lparr>address = 2, size_bytes = 8, allocationTime = 1000, isFreed = False\<rparr>] \<and>
   map_option fst (collectGarbage 2 (\<lambda>A n. 7) 64 32 (\<lambda>c. max 1 (2 * c)) 1000 4000 1 2 (smartptr_assign_raw
      \<lparr>mem = \<lparr>allocated = {1, 2}, contents = (\<lambda>a. 0::int), released = []\<rparr>,
        instance_ptr = Some \<lparr>period = 900,
          memoryBlocks = [\<lparr>address = 1, size_bytes = 8, allocationTime = 0, isFreed = False\<rparr>,
                          \<lparr>address = 2, size_bytes = 8, allocationTime = 1000, isFreed = False\<rparr>],
          running = True\<rparr>,
        isRecursive = (\<lambda>t. False), handles = (\<lambda>h. if h = 0 then 1 else nullptr)\<rparr> 0 2)) = Some (Inl InvalidDereference)"
  by (simp add: smartptr_assign_raw_def collectGarbage_def newBlocks_push_back_def time_diff_def duration_cast_seconds_def
        signed_divide_int_def free_def malloc_def nullptr_def numeral_2_eq_2
        createObject_def addMemoryBlock_def GarbageCollector_ctor_def)

end
